theory Spec2Isabelle
  imports Complex_Main "HOL-Library.Product_Lexorder"
begin

section \<open>Ledger data\<close>

text \<open>
  The stock engine of the inventory backend replays a ledger of movements. The model keeps
  the tables the engine queries as lists of rows in storage order, quantities and costs as
  exact rationals (the source computes on JavaScript numbers; rounding is not modelled),
  and a \<open>Date\<close> as its \<open>getTime()\<close> value, milliseconds since the epoch, with the local
  time zone taken to be UTC.
\<close>

type_synonym fecha = int

text \<open>
  \<open>new Date(d.getFullYear(), d.getMonth(), d.getDate()).getTime()\<close>: midnight of the
  calendar day of \<open>d\<close>.
\<close>

definition ymd :: "fecha \<Rightarrow> int" where
  "ymd d = (d div 86400000) * 86400000"

text \<open>
  \<open>setDate(getDate() - 1); setHours(23, 59, 59, 999)\<close>: the last millisecond of the day
  before \<open>d\<close>.
\<close>

definition finDiaAnterior :: "fecha \<Rightarrow> fecha" where
  "finDiaAnterior d = ymd d - 1"

datatype TipoMovimiento = ENTRADA | SALIDA | AJUSTE

datatype EstadoMovimiento = PROCESADO | NO_PROCESADO

datatype MetodoValoracion = PROMEDIO | FIFO

text \<open>Entity \<open>InventarioLote\<close>; the free-text labels of a lot are left out.\<close>

record InventarioLote =
  l_id :: nat
  l_idInventario :: nat
  l_cantidadInicial :: rat
  l_costoUnitario :: rat
  l_fechaIngreso :: fecha

text \<open>
  Entity \<open>Movimiento\<close>. \<open>m_tipoOperacion\<close> is the description of the operation type of the
  voucher the movement came from (\<open>to.descripcion\<close> of the Kardex query's left joins),
  absent when the movement has no voucher.
\<close>

record Movimiento =
  m_id :: nat
  m_tipo :: TipoMovimiento
  m_fecha :: fecha
  m_numeroDocumento :: string
  m_estado :: EstadoMovimiento
  m_tipoOperacion :: "string option"

record MovimientoDetalle =
  md_id :: nat
  md_idMovimiento :: nat
  md_idInventario :: nat
  md_idLote :: "nat option"
  md_cantidad :: rat

record DetalleSalida =
  ds_idMovimientoDetalle :: nat
  ds_idLote :: nat
  ds_costoUnitarioDeLote :: rat
  ds_cantidad :: rat

record Inventario =
  i_id :: nat
  i_producto :: "nat option"
  i_almacen :: "nat option"

record BaseDatos =
  tablaInventarios :: "Inventario list"
  tablaLotes :: "InventarioLote list"
  tablaMovimientos :: "Movimiento list"
  tablaDetalles :: "MovimientoDetalle list"
  tablaDetallesSalida :: "DetalleSalida list"

section \<open>Ledger queries\<close>

text \<open>\<open>innerJoin('md.movimiento', 'm')\<close>: the movement a line item belongs to.\<close>

definition movimientoDe :: "BaseDatos \<Rightarrow> MovimientoDetalle \<Rightarrow> Movimiento option" where
  "movimientoDe db md = find (\<lambda>m. m_id m = md_idMovimiento md) (tablaMovimientos db)"

text \<open>\<open>fechaHasta ? 'm.fecha <= :fechaHasta' : '1=1'\<close>\<close>

definition hastaFecha :: "fecha option \<Rightarrow> fecha \<Rightarrow> bool" where
  "hastaFecha fechaHasta f = (case fechaHasta of None \<Rightarrow> True | Some h \<Rightarrow> f \<le> h)"

text \<open>
  The common \<open>where\<close> clause of the sums: the line item's movement is PROCESADO, of the
  given kind, and dated up to the cutoff.
\<close>

definition procesadoDeTipo ::
  "BaseDatos \<Rightarrow> TipoMovimiento \<Rightarrow> fecha option \<Rightarrow> MovimientoDetalle \<Rightarrow> bool" where
  "procesadoDeTipo db tipo fechaHasta md =
     (case movimientoDe db md of
        None \<Rightarrow> False
      | Some m \<Rightarrow> m_estado m = PROCESADO \<and> m_tipo m = tipo \<and> hastaFecha fechaHasta (m_fecha m))"

text \<open>\<open>COALESCE(SUM(md.cantidad), 0)\<close> over the line items of one lot and one kind.\<close>

definition totalDetallesLote ::
  "BaseDatos \<Rightarrow> nat \<Rightarrow> TipoMovimiento \<Rightarrow> fecha option \<Rightarrow> rat" where
  "totalDetallesLote db idLote tipo fechaHasta =
     sum_list (map md_cantidad
       (filter (\<lambda>md. md_idLote md = Some idLote \<and> procesadoDeTipo db tipo fechaHasta md)
          (tablaDetalles db)))"

text \<open>
  The exit allocation joined to its line item (\<open>ds.id_movimiento_detalle = md.id\<close>) and
  that to its movement, which must be a PROCESADO SALIDA up to the cutoff.
\<close>

definition salidaProcesada :: "BaseDatos \<Rightarrow> fecha option \<Rightarrow> DetalleSalida \<Rightarrow> MovimientoDetalle option" where
  "salidaProcesada db fechaHasta ds =
     (case find (\<lambda>md. md_id md = ds_idMovimientoDetalle ds) (tablaDetalles db) of
        None \<Rightarrow> None
      | Some md \<Rightarrow> if procesadoDeTipo db SALIDA fechaHasta md then Some md else None)"

text \<open>\<open>COALESCE(SUM(ds.cantidad), 0)\<close> over the exit allocations of one lot.\<close>

definition totalSalidasLote :: "BaseDatos \<Rightarrow> nat \<Rightarrow> fecha option \<Rightarrow> rat" where
  "totalSalidasLote db idLote fechaHasta =
     sum_list (map ds_cantidad
       (filter (\<lambda>ds. ds_idLote ds = idLote \<and> salidaProcesada db fechaHasta ds \<noteq> None)
          (tablaDetallesSalida db)))"

text \<open>
  The date of the first PROCESADO line item of the lot whose movement carries the document
  number \<open>INV-INIT\<close> (\<open>getRawOne\<close>), if there is one.
\<close>

definition invInit :: "BaseDatos \<Rightarrow> nat \<Rightarrow> fecha option" where
  "invInit db idLote =
     (case find (\<lambda>md. md_idLote md = Some idLote \<and>
                  (case movimientoDe db md of
                     None \<Rightarrow> False
                   | Some m \<Rightarrow> m_estado m = PROCESADO \<and> m_numeroDocumento m = ''INV-INIT''))
             (tablaDetalles db) of
        None \<Rightarrow> None
      | Some md \<Rightarrow> map_option m_fecha (movimientoDe db md))"

section \<open>Stock cache\<close>

text \<open>Interfaces \<open>LoteStockResult\<close> and \<open>LoteDisponible\<close> (without the lot's label).\<close>

record LoteStockResult =
  idLote :: nat
  cantidadActual :: rat
  cantidadInicial :: rat
  costoUnitario :: rat
  fechaIngreso :: fecha

record EntradaCacheInventario =
  c_stockActual :: rat
  c_costoPromedioActual :: rat
  c_valorTotal :: rat

text \<open>
  Modelled from the spec: \<open>StockCacheService\<close>, whose source is not part of the sources at
  hand. The spec describes an in-memory cache of computed stock results keyed by lot id or
  inventory id, filled by the engine and invalidated explicitly; the calls in the engine
  pass the cutoff date with the id, so an entry is keyed by both. Expiry by time is not
  modelled: an entry stays until it is invalidated.
\<close>

record StockCache =
  loteCache :: "nat \<times> fecha option \<Rightarrow> LoteStockResult option"
  inventarioCache :: "nat \<times> fecha option \<Rightarrow> EntradaCacheInventario option"

definition cacheVacio :: StockCache where
  "cacheVacio = \<lparr>loteCache = (\<lambda>k. None), inventarioCache = (\<lambda>k. None)\<rparr>"

definition getLoteStock :: "StockCache \<Rightarrow> nat \<Rightarrow> fecha option \<Rightarrow> LoteStockResult option" where
  "getLoteStock c idL fechaHasta = loteCache c (idL, fechaHasta)"

definition setLoteStock :: "StockCache \<Rightarrow> nat \<Rightarrow> fecha option \<Rightarrow> LoteStockResult \<Rightarrow> StockCache" where
  "setLoteStock c idL fechaHasta r = c\<lparr>loteCache := (loteCache c)((idL, fechaHasta) \<mapsto> r)\<rparr>"

definition getInventarioStock ::
  "StockCache \<Rightarrow> nat \<Rightarrow> fecha option \<Rightarrow> EntradaCacheInventario option" where
  "getInventarioStock c idInv fechaHasta = inventarioCache c (idInv, fechaHasta)"

definition setInventarioStock ::
  "StockCache \<Rightarrow> nat \<Rightarrow> fecha option \<Rightarrow> EntradaCacheInventario \<Rightarrow> StockCache" where
  "setInventarioStock c idInv fechaHasta e =
     c\<lparr>inventarioCache := (inventarioCache c)((idInv, fechaHasta) \<mapsto> e)\<rparr>"

definition invalidateInventario :: "StockCache \<Rightarrow> nat \<Rightarrow> StockCache" where
  "invalidateInventario c idInv =
     c\<lparr>inventarioCache := (\<lambda>k. if fst k = idInv then None else inventarioCache c k)\<rparr>"

text \<open>What a call can read and change: the ledger and the cache.\<close>

record Estado =
  bd :: BaseDatos
  cache :: StockCache

section \<open>Stock of a lot (\<open>calcularStockLote\<close>)\<close>

text \<open>
  \<open>tieneMovimientos = entradas > 0 || salidas > 0 || ajustes > 0\<close>, on the three sums
  bounded by the cutoff date.
\<close>

definition tieneMovimientos :: "BaseDatos \<Rightarrow> nat \<Rightarrow> fecha option \<Rightarrow> bool" where
  "tieneMovimientos db idL fechaHasta =
     (totalDetallesLote db idL ENTRADA fechaHasta > 0 \<or>
      totalSalidasLote db idL fechaHasta > 0 \<or>
      totalDetallesLote db idL AJUSTE fechaHasta > 0)"

text \<open>The branch of \<open>calcularStockLote\<close> taken when \<open>tieneMovimientos\<close> is false.\<close>

definition cantidadSinMovimientos :: "BaseDatos \<Rightarrow> InventarioLote \<Rightarrow> fecha option \<Rightarrow> rat" where
  "cantidadSinMovimientos db lote fechaHasta =
     (case fechaHasta of
        None \<Rightarrow> l_cantidadInicial lote
      | Some h \<Rightarrow>
          (case invInit db (l_id lote) of
             Some f \<Rightarrow> if ymd f \<le> ymd h then l_cantidadInicial lote else 0
           | None \<Rightarrow> if ymd (l_fechaIngreso lote) \<le> ymd h then l_cantidadInicial lote else 0))"

text \<open>The computation of \<open>calcularStockLote\<close> once the lot's row has been read.\<close>

definition computarStockLote :: "BaseDatos \<Rightarrow> InventarioLote \<Rightarrow> fecha option \<Rightarrow> LoteStockResult" where
  "computarStockLote db lote fechaHasta =
     (let entradas = totalDetallesLote db (l_id lote) ENTRADA fechaHasta;
          ajustes = totalDetallesLote db (l_id lote) AJUSTE fechaHasta;
          salidas = totalSalidasLote db (l_id lote) fechaHasta;
          cantidad = (if tieneMovimientos db (l_id lote) fechaHasta
                      then entradas - salidas + ajustes
                      else cantidadSinMovimientos db lote fechaHasta)
      in \<lparr>idLote = l_id lote,
          cantidadActual = max 0 cantidad,
          cantidadInicial = l_cantidadInicial lote,
          costoUnitario = l_costoUnitario lote,
          fechaIngreso = l_fechaIngreso lote\<rparr>)"

text \<open>
  \<open>calcularStockLote(idLote, fechaHasta?)\<close>: a cached result is returned only for a call
  without cutoff date; a missing lot gives \<open>null\<close>; a computed result is stored in the cache.
\<close>

definition calcularStockLote ::
  "Estado \<Rightarrow> nat \<Rightarrow> fecha option \<Rightarrow> LoteStockResult option \<times> Estado" where
  "calcularStockLote st idL fechaHasta =
     (let cachedResult = getLoteStock (cache st) idL fechaHasta in
      if cachedResult \<noteq> None \<and> fechaHasta = None then (cachedResult, st)
      else
        (case find (\<lambda>l. l_id l = idL) (tablaLotes (bd st)) of
           None \<Rightarrow> (None, st)
         | Some lote \<Rightarrow>
             (let result = computarStockLote (bd st) lote fechaHasta
              in (Some result, st\<lparr>cache := setLoteStock (cache st) idL fechaHasta result\<rparr>))))"

text \<open>Every lot result held by the cache has a quantity that is not negative.\<close>

definition cacheLotesNoNegativo :: "StockCache \<Rightarrow> bool" where
  "cacheLotesNoNegativo c = (\<forall>k r. loteCache c k = Some r \<longrightarrow> 0 \<le> cantidadActual r)"

section \<open>Stock of an inventory position (\<open>calcularStockInventario\<close>)\<close>

record InventarioStockResult =
  idInventario :: nat
  stockActual :: rat
  costoPromedioActual :: rat
  lotes :: "LoteStockResult list"

text \<open>
  \<open>loteRepository.find({ where: { inventario: { id } }, order: { fechaIngreso: 'ASC' } })\<close>.
  The query names no second sort key, so the database may return lots of equal ingress date
  in any order; the model returns them in the order the table stores them.
\<close>

definition lotesDeInventario :: "BaseDatos \<Rightarrow> nat \<Rightarrow> InventarioLote list" where
  "lotesDeInventario db idInv =
     sort_key l_fechaIngreso (filter (\<lambda>l. l_idInventario l = idInv) (tablaLotes db))"

text \<open>
  The loop over the lots: each lot's stock is computed by \<open>calcularStockLote\<close>; a lot with a
  positive quantity is appended to \<open>lotesConStock\<close> and added to \<open>stockTotal\<close> and
  \<open>valorTotal\<close>.
\<close>

fun sumarLotes ::
  "Estado \<Rightarrow> fecha option \<Rightarrow> InventarioLote list \<Rightarrow> LoteStockResult list \<times> rat \<times> rat \<Rightarrow>
   (LoteStockResult list \<times> rat \<times> rat) \<times> Estado" where
  "sumarLotes st fechaHasta [] acc = (acc, st)"
| "sumarLotes st fechaHasta (lote # resto) (lotesConStock, stockTotal, valorTotal) =
     (case calcularStockLote st (l_id lote) fechaHasta of
        (Some stockLote, st1) \<Rightarrow>
          if cantidadActual stockLote > 0
          then sumarLotes st1 fechaHasta resto
                 (lotesConStock @ [stockLote],
                  stockTotal + cantidadActual stockLote,
                  valorTotal + cantidadActual stockLote * costoUnitario stockLote)
          else sumarLotes st1 fechaHasta resto (lotesConStock, stockTotal, valorTotal)
      | (None, st1) \<Rightarrow> sumarLotes st1 fechaHasta resto (lotesConStock, stockTotal, valorTotal))"

text \<open>
  Exits recorded without a lot (\<open>ds.id_lote = 0\<close>) for the position:
  \<open>COALESCE(SUM(ds.cantidad), 0)\<close> over PROCESADO SALIDA movements up to the cutoff.
\<close>

definition totalSalidasSinLote :: "BaseDatos \<Rightarrow> nat \<Rightarrow> fecha option \<Rightarrow> rat" where
  "totalSalidasSinLote db idInv fechaHasta =
     sum_list (map ds_cantidad
       (filter (\<lambda>ds. ds_idLote ds = 0 \<and>
                  (case salidaProcesada db fechaHasta ds of
                     None \<Rightarrow> False
                   | Some md \<Rightarrow> md_idInventario md = idInv))
          (tablaDetallesSalida db)))"

text \<open>
  \<open>calcularStockInventario(idInventario, fechaHasta?)\<close>. A call without cutoff date that
  finds a cached entry answers from it, with an empty list of lots; otherwise the lots are
  added up, the exits without lot are subtracted, and the totals are stored in the cache.
\<close>

definition calcularStockInventario ::
  "Estado \<Rightarrow> nat \<Rightarrow> fecha option \<Rightarrow> InventarioStockResult option \<times> Estado" where
  "calcularStockInventario st idInv fechaHasta =
     (let cachedResult = getInventarioStock (cache st) idInv fechaHasta;
          inventario = find (\<lambda>i. i_id i = idInv) (tablaInventarios (bd st))
      in if cachedResult \<noteq> None \<and> fechaHasta = None then
           (case inventario of
              None \<Rightarrow> (None, st)
            | Some _ \<Rightarrow>
                (Some \<lparr>idInventario = idInv,
                       stockActual = c_stockActual (the cachedResult),
                       costoPromedioActual = c_costoPromedioActual (the cachedResult),
                       lotes = []\<rparr>, st))
         else
           (case inventario of
              None \<Rightarrow> (None, st)
            | Some _ \<Rightarrow>
                (case sumarLotes st fechaHasta (lotesDeInventario (bd st) idInv) ([], 0, 0) of
                   ((lotesConStock, stockTotal, valorTotal), st1) \<Rightarrow>
                     (let salidasFicticias = totalSalidasSinLote (bd st1) idInv fechaHasta;
                          stockTotalAjustado = max 0 (stockTotal - salidasFicticias);
                          costoPromedio =
                            (if stockTotalAjustado > 0 then valorTotal / stockTotalAjustado else 0)
                      in (Some \<lparr>idInventario = idInv,
                                stockActual = stockTotalAjustado,
                                costoPromedioActual = costoPromedio,
                                lotes = lotesConStock\<rparr>,
                          st1\<lparr>cache := setInventarioStock (cache st1) idInv fechaHasta
                                \<lparr>c_stockActual = stockTotalAjustado,
                                 c_costoPromedioActual = costoPromedio,
                                 c_valorTotal = stockTotalAjustado * costoPromedio\<rparr>\<rparr>)))))"

section \<open>FIFO allocation\<close>

record LoteDisponible =
  d_idLote :: nat
  cantidadDisponible :: rat
  d_costoUnitario :: rat
  d_fechaIngreso :: fecha

definition aLoteDisponible :: "LoteStockResult \<Rightarrow> LoteDisponible" where
  "aLoteDisponible lote =
     \<lparr>d_idLote = idLote lote, cantidadDisponible = cantidadActual lote,
      d_costoUnitario = costoUnitario lote, d_fechaIngreso = fechaIngreso lote\<rparr>"

text \<open>
  \<open>obtenerLotesDisponiblesFIFO\<close>: the lots of the stock result with a positive quantity,
  sorted with the comparator \<open>a.fechaIngreso.getTime() - b.fechaIngreso.getTime()\<close>. The
  sort of an array is stable, so lots of equal ingress date keep the order of the stock
  result.
\<close>

definition obtenerLotesDisponiblesFIFO ::
  "Estado \<Rightarrow> nat \<Rightarrow> fecha option \<Rightarrow> LoteDisponible list \<times> Estado" where
  "obtenerLotesDisponiblesFIFO st idInv fechaHasta =
     (case calcularStockInventario st idInv fechaHasta of
        (None, st1) \<Rightarrow> ([], st1)
      | (Some stockInventario, st1) \<Rightarrow>
          (sort_key d_fechaIngreso
             (map aLoteDisponible
                (filter (\<lambda>lote. cantidadActual lote > 0) (lotes stockInventario))), st1))"


record Consumo =
  k_idLote :: nat
  k_cantidad :: rat
  k_costoUnitario :: rat

datatype error =
    StockInsuficiente rat
  | DetalleSinInventario
  | InventarioNoEncontrado nat
  | InventarioSinProducto nat
  | InventarioSinAlmacen nat
  | CantidadNoPositiva
  | PrecioNegativo
  | InventarioDuplicado

text \<open>
  The loop of \<open>calcularConsumoFIFO\<close>: it stops as soon as nothing remains to be consumed,
  and takes from each lot the smaller of what remains and what the lot has.
\<close>

fun consumirLotes :: "LoteDisponible list \<Rightarrow> rat \<Rightarrow> Consumo list \<Rightarrow> Consumo list \<times> rat" where
  "consumirLotes [] cantidadRestante consumo = (consumo, cantidadRestante)"
| "consumirLotes (lote # resto) cantidadRestante consumo =
     (if cantidadRestante \<le> 0 then (consumo, cantidadRestante)
      else
        (let cantidadDelLote = min cantidadRestante (cantidadDisponible lote)
         in consumirLotes resto (cantidadRestante - cantidadDelLote)
              (consumo @ [\<lparr>k_idLote = d_idLote lote, k_cantidad = cantidadDelLote,
                           k_costoUnitario = d_costoUnitario lote\<rparr>])))"

text \<open>
  \<open>calcularConsumoFIFO\<close>: throws \<open>Stock insuficiente. Faltante: ...\<close> when something
  remains after the loop. The state is returned in both cases: what the stock calculation
  stored in the cache stays there when the call throws.
\<close>

definition calcularConsumoFIFO ::
  "Estado \<Rightarrow> nat \<Rightarrow> rat \<Rightarrow> fecha option \<Rightarrow> (error + Consumo list) \<times> Estado" where
  "calcularConsumoFIFO st idInv cantidadAConsumir fechaHasta =
     (case obtenerLotesDisponiblesFIFO st idInv fechaHasta of
        (lotesDisponibles, st1) \<Rightarrow>
          (case consumirLotes lotesDisponibles cantidadAConsumir [] of
             (consumo, cantidadRestante) \<Rightarrow>
               if cantidadRestante > 0 then (Inl (StockInsuficiente cantidadRestante), st1)
               else (Inr consumo, st1)))"




section \<open>Lots of a voucher (\<open>procesarLotesComprobante\<close>)\<close>




text \<open>The identifier the database generates for a new lot: above every identifier in use.\<close>

definition nuevoId :: "nat list \<Rightarrow> nat" where
  "nuevoId ids = Suc (foldr max ids 0)"






section \<open>Kardex (\<open>KardexCalculationService\<close>)\<close>

record Saldo =
  s_cantidad :: rat
  s_costoUnitario :: rat
  s_valorTotal :: rat

record DetalleSalidaCalculado =
  x_idLote :: nat
  x_cantidad :: rat
  x_costoUnitarioDeLote :: rat
  x_costoTotal :: rat

text \<open>
  Interface \<open>KardexMovement\<close>, without the labels copied from the voucher (codes, voucher
  type and number), which no computation reads.
\<close>

record KardexMovement =
  km_fecha :: fecha
  km_tipoOperacion :: "string option"
  km_tipoMovimiento :: TipoMovimiento
  km_cantidad :: rat
  km_costoUnitario :: rat
  km_costoTotal :: rat
  cantidadSaldo :: rat
  costoUnitarioSaldo :: rat
  valorTotalSaldo :: rat
  km_idInventario :: nat
  km_idMovimiento :: nat
  km_idMovimientoDetalle :: nat
  km_detallesSalida :: "DetalleSalidaCalculado list option"

record KardexResult =
  kr_idInventario :: nat
  saldoInicial :: Saldo
  movimientosKardex :: "KardexMovement list"
  stockFinal :: rat
  costoUnitarioFinal :: rat
  valorTotalFinal :: rat

text \<open>A row of the query of \<open>obtenerMovimientosInventario\<close>, with the columns the replay reads.\<close>

record FilaKardex =
  idmovimientodetalle :: nat
  fila_md_cantidad :: rat
  fila_md_id_lote :: "nat option"
  fila_md_id_inventario :: nat
  idmovimiento :: nat
  tipomovimiento :: TipoMovimiento
  fila_m_fecha :: fecha
  c_tipoOperacion :: "string option"

definition filaKardex :: "MovimientoDetalle \<Rightarrow> Movimiento \<Rightarrow> FilaKardex" where
  "filaKardex md m =
     \<lparr>idmovimientodetalle = md_id md, fila_md_cantidad = md_cantidad md,
      fila_md_id_lote = md_idLote md, fila_md_id_inventario = md_idInventario md,
      idmovimiento = m_id m, tipomovimiento = m_tipo m, fila_m_fecha = m_fecha m,
      c_tipoOperacion = m_tipoOperacion m\<rparr>"

text \<open>
  The PROCESADO line items of the position dated within the period, ordered by movement
  date and then movement id; rows that agree on both keep the table's order.
\<close>

definition filaEnPeriodo ::
  "BaseDatos \<Rightarrow> nat \<Rightarrow> fecha \<Rightarrow> fecha \<Rightarrow> MovimientoDetalle \<Rightarrow> FilaKardex option" where
  "filaEnPeriodo db idInv fechaDesde fechaHasta md =
     (if md_idInventario md = idInv then
        (case movimientoDe db md of
           None \<Rightarrow> None
         | Some m \<Rightarrow>
             if fechaDesde \<le> m_fecha m \<and> m_fecha m \<le> fechaHasta \<and> m_estado m = PROCESADO
             then Some (filaKardex md m) else None)
      else None)"

definition obtenerMovimientosInventario ::
  "BaseDatos \<Rightarrow> nat \<Rightarrow> fecha \<Rightarrow> fecha \<Rightarrow> FilaKardex list" where
  "obtenerMovimientosInventario db idInv fechaDesde fechaHasta =
     sort_key (\<lambda>f. (fila_m_fecha f, idmovimiento f))
       (List.map_filter (filaEnPeriodo db idInv fechaDesde fechaHasta) (tablaDetalles db))"

text \<open>
  \<open>calcularSaldoInicial\<close>: the stock of the position at the end of the day before the
  period starts; nothing, or a stock that is not positive, gives the zero balance.
\<close>

definition calcularSaldoInicial :: "Estado \<Rightarrow> nat \<Rightarrow> fecha \<Rightarrow> Saldo \<times> Estado" where
  "calcularSaldoInicial st idInv fechaDesde =
     (case calcularStockInventario st idInv (Some (finDiaAnterior fechaDesde)) of
        (None, st1) \<Rightarrow> (\<lparr>s_cantidad = 0, s_costoUnitario = 0, s_valorTotal = 0\<rparr>, st1)
      | (Some stockInventario, st1) \<Rightarrow>
          if stockActual stockInventario \<le> 0
          then (\<lparr>s_cantidad = 0, s_costoUnitario = 0, s_valorTotal = 0\<rparr>, st1)
          else (\<lparr>s_cantidad = stockActual stockInventario,
                 s_costoUnitario = costoPromedioActual stockInventario,
                 s_valorTotal = stockActual stockInventario * costoPromedioActual stockInventario\<rparr>,
                st1))"

definition esMovimientoEntrada :: "TipoMovimiento \<Rightarrow> string option \<Rightarrow> bool" where
  "esMovimientoEntrada tipoMov tipoOp = (tipoOp = Some ''COMPRA'' \<or> tipoMov = ENTRADA)"

text \<open>\<open>obtenerCostoUnitarioEntrada\<close>: the stored cost of the lot, zero without a lot.\<close>

definition obtenerCostoUnitarioEntrada :: "BaseDatos \<Rightarrow> nat option \<Rightarrow> rat" where
  "obtenerCostoUnitarioEntrada db idL =
     (case idL of
        None \<Rightarrow> 0
      | Some i \<Rightarrow>
          if i = 0 then 0
          else (case find (\<lambda>l. l_id l = i) (tablaLotes db) of
                  None \<Rightarrow> 0
                | Some lote \<Rightarrow> l_costoUnitario lote))"

definition procesarEntrada :: "BaseDatos \<Rightarrow> FilaKardex \<Rightarrow> Saldo \<Rightarrow> KardexMovement" where
  "procesarEntrada db mov saldoAnterior =
     (let cantidad = fila_md_cantidad mov;
          costoUnit = obtenerCostoUnitarioEntrada db (fila_md_id_lote mov);
          costoTotal = cantidad * costoUnit;
          nuevaCantidad = s_cantidad saldoAnterior + cantidad;
          nuevoValorTotal = s_valorTotal saldoAnterior + costoTotal;
          nuevoCostoUnitario = (if nuevaCantidad > 0 then nuevoValorTotal / nuevaCantidad else 0)
      in \<lparr>km_fecha = fila_m_fecha mov, km_tipoOperacion = c_tipoOperacion mov,
          km_tipoMovimiento = tipomovimiento mov, km_cantidad = cantidad,
          km_costoUnitario = costoUnit, km_costoTotal = costoTotal,
          cantidadSaldo = nuevaCantidad, costoUnitarioSaldo = nuevoCostoUnitario,
          valorTotalSaldo = nuevoValorTotal,
          km_idInventario = fila_md_id_inventario mov, km_idMovimiento = idmovimiento mov,
          km_idMovimientoDetalle = idmovimientodetalle mov, km_detallesSalida = None\<rparr>)"

subsection \<open>The working set of lots of a FIFO replay\<close>

record LoteTemporal =
  t_cantidadDisponible :: rat
  t_costoUnitario :: rat
  t_fechaIngreso :: fecha

text \<open>
  \<open>lotesDisponiblesTemporales\<close> is a \<open>Map\<close> from lot id to its entry; the model keeps the
  entries in insertion order. \<open>mapSet\<close> is \<open>Map.prototype.set\<close>: an existing key keeps its
  place, a new key goes last.
\<close>

type_synonym LotesTemporales = "(nat \<times> LoteTemporal) list"

fun mapSet :: "LotesTemporales \<Rightarrow> nat \<Rightarrow> LoteTemporal \<Rightarrow> LotesTemporales" where
  "mapSet [] k v = [(k, v)]"
| "mapSet ((k', v') # resto) k v =
     (if k' = k then (k, v) # resto else (k', v') # mapSet resto k v)"

fun cargarLotesTemporales :: "LotesTemporales \<Rightarrow> LoteDisponible list \<Rightarrow> LotesTemporales" where
  "cargarLotesTemporales lt [] = lt"
| "cargarLotesTemporales lt (lote # resto) =
     cargarLotesTemporales
       (mapSet lt (d_idLote lote)
          \<lparr>t_cantidadDisponible = cantidadDisponible lote,
           t_costoUnitario = d_costoUnitario lote,
           t_fechaIngreso = d_fechaIngreso lote\<rparr>) resto"

text \<open>
  \<open>inicializarLotesTemporales\<close>: the lots available at the end of the day before the period
  starts.
\<close>

definition inicializarLotesTemporales :: "Estado \<Rightarrow> nat \<Rightarrow> fecha \<Rightarrow> LotesTemporales \<times> Estado" where
  "inicializarLotesTemporales st idInv fechaInicio =
     (case obtenerLotesDisponiblesFIFO st idInv (Some (finDiaAnterior fechaInicio)) of
        (lotesDisponibles, st1) \<Rightarrow> (cargarLotesTemporales [] lotesDisponibles, st1))"

definition actualizarLoteTemporalEntrada ::
  "LotesTemporales \<Rightarrow> nat \<Rightarrow> rat \<Rightarrow> rat \<Rightarrow> fecha \<Rightarrow> LotesTemporales" where
  "actualizarLoteTemporalEntrada lt idL cantidad costoUnit fechaIng =
     (case map_of lt idL of
        Some loteExistente \<Rightarrow>
          mapSet lt idL
            (loteExistente\<lparr>t_cantidadDisponible := t_cantidadDisponible loteExistente + cantidad\<rparr>)
      | None \<Rightarrow>
          mapSet lt idL
            \<lparr>t_cantidadDisponible = cantidad, t_costoUnitario = costoUnit,
             t_fechaIngreso = fechaIng\<rparr>)"

text \<open>
  The lots of the working set with a positive quantity, sorted by ingress date and, for
  equal dates, by lot id (the comparator of \<open>calcularCostoFIFO\<close>).
\<close>

definition lotesTemporalesOrdenados :: "LotesTemporales \<Rightarrow> LoteDisponible list" where
  "lotesTemporalesOrdenados lt =
     sort_key (\<lambda>l. (d_fechaIngreso l, d_idLote l))
       (map (\<lambda>entry. \<lparr>d_idLote = fst entry,
                       cantidadDisponible = t_cantidadDisponible (snd entry),
                       d_costoUnitario = t_costoUnitario (snd entry),
                       d_fechaIngreso = t_fechaIngreso (snd entry)\<rparr>)
          (filter (\<lambda>entry. t_cantidadDisponible (snd entry) > 0) lt))"

text \<open>
  The loop of \<open>calcularCostoFIFO\<close> over the sorted lots: each lot touched gives one exit
  detail and has the quantity taken subtracted in the working set.
\<close>

fun consumirTemporales ::
  "LoteDisponible list \<Rightarrow> rat \<Rightarrow> DetalleSalidaCalculado list \<Rightarrow> LotesTemporales \<Rightarrow>
   DetalleSalidaCalculado list \<times> LotesTemporales" where
  "consumirTemporales [] cantidadRestante detallesSal lt = (detallesSal, lt)"
| "consumirTemporales (lote # resto) cantidadRestante detallesSal lt =
     (if cantidadRestante \<le> 0 then (detallesSal, lt)
      else
        (let cantidadDelLote = min cantidadRestante (cantidadDisponible lote);
             costoDelLote = cantidadDelLote * d_costoUnitario lote
         in consumirTemporales resto (cantidadRestante - cantidadDelLote)
              (detallesSal @ [\<lparr>x_idLote = d_idLote lote, x_cantidad = cantidadDelLote,
                               x_costoUnitarioDeLote = d_costoUnitario lote,
                               x_costoTotal = costoDelLote\<rparr>])
              (case map_of lt (d_idLote lote) of
                 None \<Rightarrow> lt
               | Some loteTemp \<Rightarrow>
                   mapSet lt (d_idLote lote)
                     (loteTemp\<lparr>t_cantidadDisponible :=
                                 t_cantidadDisponible loteTemp - cantidadDelLote\<rparr>))))"

text \<open>
  \<open>calcularCostoFIFO\<close>: the average cost of the exit, its details per lot, and the working
  set after the exit.
\<close>

definition calcularCostoFIFO ::
  "LotesTemporales \<Rightarrow> rat \<Rightarrow> (rat \<times> DetalleSalidaCalculado list) \<times> LotesTemporales" where
  "calcularCostoFIFO lt cantidadSalida =
     (case consumirTemporales (lotesTemporalesOrdenados lt) cantidadSalida [] lt of
        (detallesSal, lt1) \<Rightarrow>
          ((if cantidadSalida > 0
            then sum_list (map x_costoTotal detallesSal) / cantidadSalida else 0,
            detallesSal), lt1))"

subsection \<open>Exits\<close>

definition filaSalida :: "FilaKardex \<Rightarrow> rat \<Rightarrow> rat \<Rightarrow> rat \<Rightarrow> Saldo \<Rightarrow>
    DetalleSalidaCalculado list option \<Rightarrow> KardexMovement" where
  "filaSalida mov cantidad costoUnit costoTotal nuevoSaldo detallesSal =
     \<lparr>km_fecha = fila_m_fecha mov, km_tipoOperacion = c_tipoOperacion mov,
      km_tipoMovimiento = tipomovimiento mov, km_cantidad = cantidad,
      km_costoUnitario = costoUnit, km_costoTotal = costoTotal,
      cantidadSaldo = s_cantidad nuevoSaldo, costoUnitarioSaldo = s_costoUnitario nuevoSaldo,
      valorTotalSaldo = s_valorTotal nuevoSaldo,
      km_idInventario = fila_md_id_inventario mov, km_idMovimiento = idmovimiento mov,
      km_idMovimientoDetalle = idmovimientodetalle mov, km_detallesSalida = detallesSal\<rparr>"

text \<open>The balance after taking a quantity at a total cost out of a balance, floored at zero.\<close>

definition saldoTrasSalida :: "Saldo \<Rightarrow> rat \<Rightarrow> rat \<Rightarrow> Saldo" where
  "saldoTrasSalida saldoAnterior cantidad costoTotal =
     (let nuevaCantidad = max 0 (s_cantidad saldoAnterior - cantidad);
          nuevoValorTotal = max 0 (s_valorTotal saldoAnterior - costoTotal);
          nuevoCostoUnitario = (if nuevaCantidad > 0 then nuevoValorTotal / nuevaCantidad else 0)
      in \<lparr>s_cantidad = nuevaCantidad, s_costoUnitario = nuevoCostoUnitario,
          s_valorTotal = nuevoValorTotal\<rparr>)"

text \<open>The loop of the FIFO branch of \<open>procesarSalida\<close>: one Kardex row per exit detail.\<close>

fun movimientosPorLote ::
  "FilaKardex \<Rightarrow> Saldo \<Rightarrow> DetalleSalidaCalculado list \<Rightarrow> KardexMovement list" where
  "movimientosPorLote mov saldoActualizado [] = []"
| "movimientosPorLote mov saldoActualizado (detalle # resto) =
     (let nuevoSaldo = saldoTrasSalida saldoActualizado (x_cantidad detalle) (x_costoTotal detalle)
      in filaSalida mov (x_cantidad detalle) (x_costoUnitarioDeLote detalle)
           (x_costoTotal detalle) nuevoSaldo
           (Some [\<lparr>x_idLote = x_idLote detalle, x_cantidad = x_cantidad detalle,
                    x_costoUnitarioDeLote = x_costoUnitarioDeLote detalle,
                    x_costoTotal = x_costoTotal detalle\<rparr>])
         # movimientosPorLote mov nuevoSaldo resto)"

text \<open>
  \<open>procesarSalida\<close> returns one row under PROMEDIO and an array of rows under FIFO.
\<close>

datatype ResultadoSalida = Uno KardexMovement | Varios "KardexMovement list"

definition procesarSalida ::
  "FilaKardex \<Rightarrow> Saldo \<Rightarrow> MetodoValoracion \<Rightarrow> LotesTemporales \<Rightarrow> ResultadoSalida \<times> LotesTemporales" where
  "procesarSalida mov saldoAnterior metodoValoracion lt =
     (let cantidad = fila_md_cantidad mov in
      if metodoValoracion = PROMEDIO then
        (let costoUnit = s_costoUnitario saldoAnterior;
             costoTotal = cantidad * costoUnit
         in (Uno (filaSalida mov cantidad costoUnit costoTotal
                    (saldoTrasSalida saldoAnterior cantidad costoTotal) None), lt))
      else
        (case calcularCostoFIFO lt cantidad of
           (resultadoFIFO, lt1) \<Rightarrow>
             (Varios (movimientosPorLote mov saldoAnterior (snd resultadoFIFO)), lt1)))"

definition saldoDe :: "KardexMovement \<Rightarrow> Saldo" where
  "saldoDe m = \<lparr>s_cantidad = cantidadSaldo m, s_costoUnitario = costoUnitarioSaldo m,
                s_valorTotal = valorTotalSaldo m\<rparr>"

text \<open>
  The loop of \<open>procesarMovimientos\<close>: the running balance \<open>saldoActual\<close>, the working set
  of lots and the rows produced so far.
\<close>

fun replayMovimientos ::
  "BaseDatos \<Rightarrow> MetodoValoracion \<Rightarrow> FilaKardex list \<Rightarrow> Saldo \<Rightarrow> LotesTemporales \<Rightarrow>
   KardexMovement list \<Rightarrow> KardexMovement list" where
  "replayMovimientos db metodoValoracion [] saldoActual lt kardex = kardex"
| "replayMovimientos db metodoValoracion (mov # resto) saldoActual lt kardex =
     (if esMovimientoEntrada (tipomovimiento mov) (c_tipoOperacion mov) then
        (let movimientoKardex = procesarEntrada db mov saldoActual;
             lt1 = (case fila_md_id_lote mov of
                      None \<Rightarrow> lt
                    | Some i \<Rightarrow>
                        if metodoValoracion = FIFO \<and> i \<noteq> 0
                        then actualizarLoteTemporalEntrada lt i (km_cantidad movimientoKardex)
                               (km_costoUnitario movimientoKardex) (km_fecha movimientoKardex)
                        else lt)
         in replayMovimientos db metodoValoracion resto (saldoDe movimientoKardex) lt1
              (kardex @ [movimientoKardex]))
      else
        (case procesarSalida mov saldoActual metodoValoracion lt of
           (Varios resultado, lt1) \<Rightarrow>
             replayMovimientos db metodoValoracion resto
               (if resultado = [] then saldoActual else saldoDe (last resultado)) lt1
               (kardex @ resultado)
         | (Uno movimientoKardex, lt1) \<Rightarrow>
             replayMovimientos db metodoValoracion resto (saldoDe movimientoKardex) lt1
               (kardex @ [movimientoKardex])))"

definition procesarMovimientos ::
  "Estado \<Rightarrow> FilaKardex list \<Rightarrow> Saldo \<Rightarrow> MetodoValoracion \<Rightarrow> nat \<Rightarrow> fecha \<Rightarrow>
   KardexMovement list \<times> Estado" where
  "procesarMovimientos st movs saldoIni metodoValoracion idInv fechaDesde =
     (case (if metodoValoracion = FIFO then inicializarLotesTemporales st idInv fechaDesde
            else ([], st)) of
        (lt, st1) \<Rightarrow> (replayMovimientos (bd st1) metodoValoracion movs saldoIni lt [], st1))"

text \<open>
  \<open>generarKardex\<close>, without the product and warehouse labels of the report. The final
  values use \<open>||\<close>: a last row whose balance is zero gives way to the opening balance.
\<close>

definition generarKardex ::
  "Estado \<Rightarrow> nat \<Rightarrow> fecha \<Rightarrow> fecha \<Rightarrow> MetodoValoracion \<Rightarrow> KardexResult option \<times> Estado" where
  "generarKardex st idInv fechaDesde fechaHasta metodoValoracion =
     (case find (\<lambda>i. i_id i = idInv) (tablaInventarios (bd st)) of
        None \<Rightarrow> (None, st)
      | Some _ \<Rightarrow>
          (let movs = obtenerMovimientosInventario (bd st) idInv fechaDesde fechaHasta in
           case calcularSaldoInicial st idInv fechaDesde of
             (saldoIni, st1) \<Rightarrow>
               (case procesarMovimientos st1 movs saldoIni metodoValoracion idInv fechaDesde of
                  (kardex, st2) \<Rightarrow>
                    (let stockFin =
                           (if kardex \<noteq> [] \<and> cantidadSaldo (last kardex) \<noteq> 0
                            then cantidadSaldo (last kardex) else s_cantidad saldoIni);
                         costoFin =
                           (if kardex \<noteq> [] \<and> costoUnitarioSaldo (last kardex) \<noteq> 0
                            then costoUnitarioSaldo (last kardex) else s_costoUnitario saldoIni)
                     in (Some \<lparr>kr_idInventario = idInv, saldoInicial = saldoIni,
                               movimientosKardex = kardex, stockFinal = stockFin,
                               costoUnitarioFinal = costoFin,
                               valorTotalFinal = stockFin * costoFin\<rparr>, st2)))))"

section \<open>Seeding a position (\<open>InventarioService.create\<close>)\<close>

text \<open>
  Modelled from the spec: \<open>InventarioLoteService.create\<close>, whose source is not part of the
  sources at hand. The spec describes the creation of a lot for initial-balance seeding as
  storing a lot with the given quantity, unit cost and ingress date for the position.
\<close>

definition crearLote :: "BaseDatos \<Rightarrow> nat \<Rightarrow> fecha \<Rightarrow> rat \<Rightarrow> rat \<Rightarrow> InventarioLote \<times> BaseDatos" where
  "crearLote db idInv fechaIng cantidadIni costoUnit =
     (let lote = \<lparr>l_id = nuevoId (map l_id (tablaLotes db)), l_idInventario = idInv,
                  l_cantidadInicial = cantidadIni, l_costoUnitario = costoUnit,
                  l_fechaIngreso = fechaIng\<rparr>
      in (lote, db\<lparr>tablaLotes := tablaLotes db @ [lote]\<rparr>))"

text \<open>
  \<open>create\<close>: a new position for a product in a warehouse (the checks that both exist are
  against tables outside the model and taken to pass) and, when an initial stock and a price
  are given and positive, a seed lot with an ENTRADA movement numbered \<open>INV-INIT\<close>. With an
  active accounting period both are dated at the first day of its year \<open>inicioPeriodo\<close>;
  without one, the lot at the current day and the movement at the current time \<open>ahora\<close>.
\<close>

definition create ::
  "fecha \<Rightarrow> fecha option \<Rightarrow> Estado \<Rightarrow> nat \<Rightarrow> nat \<Rightarrow> rat option \<Rightarrow> rat option \<Rightarrow>
   error + Inventario \<times> Estado" where
  "create ahora inicioPeriodo st idAlmacen idProducto stockInicial precioUnitario =
     (if \<exists>i \<in> set (tablaInventarios (bd st)).
           i_almacen i = Some idAlmacen \<and> i_producto i = Some idProducto
      then Inl InventarioDuplicado
      else
        (let inventario = \<lparr>i_id = nuevoId (map i_id (tablaInventarios (bd st))),
                           i_producto = Some idProducto, i_almacen = Some idAlmacen\<rparr>;
             db1 = (bd st)\<lparr>tablaInventarios := tablaInventarios (bd st) @ [inventario]\<rparr>
         in case (stockInicial, precioUnitario) of
              (Some stock, Some precio) \<Rightarrow>
                if stock > 0 \<and> precio > 0 then
                  (let fechaIngresoLote = (case inicioPeriodo of Some a \<Rightarrow> a | None \<Rightarrow> ymd ahora);
                       fechaMovimiento = (case inicioPeriodo of Some a \<Rightarrow> a | None \<Rightarrow> ahora)
                   in case crearLote db1 (i_id inventario) fechaIngresoLote stock precio of
                        (lote, db2) \<Rightarrow>
                          (let movimiento =
                                 \<lparr>m_id = nuevoId (map m_id (tablaMovimientos db2)),
                                  m_tipo = ENTRADA, m_fecha = fechaMovimiento,
                                  m_numeroDocumento = ''INV-INIT'', m_estado = PROCESADO,
                                  m_tipoOperacion = None\<rparr>;
                               detalle =
                                 \<lparr>md_id = nuevoId (map md_id (tablaDetalles db2)),
                                  md_idMovimiento = m_id movimiento,
                                  md_idInventario = i_id inventario,
                                  md_idLote = Some (l_id lote), md_cantidad = stock\<rparr>
                           in Inr (inventario,
                                   st\<lparr>bd := db2\<lparr>tablaMovimientos := tablaMovimientos db2 @ [movimiento],
                                                 tablaDetalles := tablaDetalles db2 @ [detalle]\<rparr>\<rparr>)))
                else Inr (inventario, st\<lparr>bd := db1\<rparr>)
            | _ \<Rightarrow> Inr (inventario, st\<lparr>bd := db1\<rparr>)))"

section \<open>Notions of the specification\<close>

text \<open>
  The number of PROCESADO line items and exit allocations that reference a lot and are
  dated up to the cutoff; without a cutoff, all of them.
\<close>

definition referenciasLote :: "BaseDatos \<Rightarrow> nat \<Rightarrow> fecha option \<Rightarrow> nat" where
  "referenciasLote db idL fechaHasta =
     length (filter (\<lambda>md. md_idLote md = Some idL \<and>
                       (case movimientoDe db md of
                          None \<Rightarrow> False
                        | Some m \<Rightarrow> m_estado m = PROCESADO \<and> hastaFecha fechaHasta (m_fecha m)))
               (tablaDetalles db)) +
     length (filter (\<lambda>ds. ds_idLote ds = idL \<and>
                       (case find (\<lambda>md. md_id md = ds_idMovimientoDetalle ds) (tablaDetalles db) of
                          None \<Rightarrow> False
                        | Some md \<Rightarrow>
                            (case movimientoDe db md of
                               None \<Rightarrow> False
                             | Some m \<Rightarrow>
                                 m_estado m = PROCESADO \<and> hastaFecha fechaHasta (m_fecha m))))
               (tablaDetallesSalida db))"

text \<open>
  The date that decides whether a lot without movements had entered by the cutoff: that of
  its \<open>INV-INIT\<close> movement when there is one, its ingress date otherwise.
\<close>

definition fechaDeEntrada :: "BaseDatos \<Rightarrow> InventarioLote \<Rightarrow> fecha" where
  "fechaDeEntrada db lote =
     (case invInit db (l_id lote) of Some f \<Rightarrow> f | None \<Rightarrow> l_fechaIngreso lote)"

text \<open>Total quantity and total value of a list of lot results.\<close>

definition cantidadLotes :: "LoteStockResult list \<Rightarrow> rat" where
  "cantidadLotes ls = sum_list (map cantidadActual ls)"

definition valorLotes :: "LoteStockResult list \<Rightarrow> rat" where
  "valorLotes ls = sum_list (map (\<lambda>l. cantidadActual l * costoUnitario l) ls)"

text \<open>
  The stock results of the lots of a position, as \<open>calcularStockLote\<close> gives them in a
  state, restricted to those with a positive quantity.
\<close>

definition lotesConStockDe :: "Estado \<Rightarrow> nat \<Rightarrow> fecha option \<Rightarrow> LoteStockResult list" where
  "lotesConStockDe st idInv fechaHasta =
     filter (\<lambda>s. cantidadActual s > 0)
       (List.map_filter (\<lambda>l. fst (calcularStockLote st (l_id l) fechaHasta))
          (lotesDeInventario (bd st) idInv))"




text \<open>
  A row continues a balance: its balance after is the balance before plus the row's
  quantity and cost for an entry, minus them and floored at zero for an exit, with the unit
  cost of the balance recomputed from its value and quantity.
\<close>

definition filaDesde :: "Saldo \<Rightarrow> KardexMovement \<Rightarrow> bool" where
  "filaDesde saldoAntes f =
     ((if esMovimientoEntrada (km_tipoMovimiento f) (km_tipoOperacion f)
       then cantidadSaldo f = s_cantidad saldoAntes + km_cantidad f \<and>
            valorTotalSaldo f = s_valorTotal saldoAntes + km_costoTotal f
       else cantidadSaldo f = max 0 (s_cantidad saldoAntes - km_cantidad f) \<and>
            valorTotalSaldo f = max 0 (s_valorTotal saldoAntes - km_costoTotal f)) \<and>
      costoUnitarioSaldo f =
        (if cantidadSaldo f > 0 then valorTotalSaldo f / cantidadSaldo f else 0))"

text \<open>
  The running balance of a report is continuous: the first row continues the opening
  balance, and every other row continues the balance after the row before it.
\<close>

fun saldoContinuo :: "Saldo \<Rightarrow> KardexMovement list \<Rightarrow> bool" where
  "saldoContinuo s [] = True"
| "saldoContinuo s (f # fs) = (filaDesde s f \<and> saldoContinuo (saldoDe f) fs)"

text \<open>
  Referential integrity of the ledger: every lot and every line item belongs to a position
  of the ledger, and a lot that a line item or an exit allocation names (other than the lot
  id zero of exits without a lot) is a lot of the ledger.
\<close>

definition integridad :: "BaseDatos \<Rightarrow> bool" where
  "integridad db =
     ((\<forall>l \<in> set (tablaLotes db). l_idInventario l \<in> set (map i_id (tablaInventarios db))) \<and>
      (\<forall>md \<in> set (tablaDetalles db).
         md_idInventario md \<in> set (map i_id (tablaInventarios db)) \<and>
         (case md_idLote md of None \<Rightarrow> True | Some i \<Rightarrow> i \<in> set (map l_id (tablaLotes db)))) \<and>
      (\<forall>ds \<in> set (tablaDetallesSalida db).
         ds_idLote ds = 0 \<or> ds_idLote ds \<in> set (map l_id (tablaLotes db))))"

text \<open>
  A ledger \<open>db'\<close> is the ledger \<open>db\<close> with a seeded position: a new position, a lot of
  it, and a PROCESADO \<open>INV-INIT\<close> ENTRADA movement with one line item for the lot, none of
  which any row of \<open>db\<close> refers to.
\<close>

definition siembra ::
  "BaseDatos \<Rightarrow> BaseDatos \<Rightarrow> Inventario \<Rightarrow> InventarioLote \<Rightarrow> Movimiento \<Rightarrow> MovimientoDetalle \<Rightarrow> bool"
  where
  "siembra db db' pos lote mov det =
     (tablaInventarios db' = tablaInventarios db @ [pos] \<and>
      tablaLotes db' = tablaLotes db @ [lote] \<and>
      tablaMovimientos db' = tablaMovimientos db @ [mov] \<and>
      tablaDetalles db' = tablaDetalles db @ [det] \<and>
      tablaDetallesSalida db' = tablaDetallesSalida db \<and>
      l_idInventario lote = i_id pos \<and> l_id lote \<noteq> 0 \<and>
      md_idInventario det = i_id pos \<and> md_idLote det = Some (l_id lote) \<and>
      md_idMovimiento det = m_id mov \<and>
      m_tipo mov = ENTRADA \<and> m_estado mov = PROCESADO \<and>
      m_numeroDocumento mov = ''INV-INIT'' \<and> m_tipoOperacion mov = None \<and>
      (\<forall>i \<in> set (tablaInventarios db). i_id i \<noteq> i_id pos) \<and>
      (\<forall>l \<in> set (tablaLotes db). l_id l \<noteq> l_id lote \<and> l_idInventario l \<noteq> i_id pos) \<and>
      (\<forall>m \<in> set (tablaMovimientos db). m_id m \<noteq> m_id mov) \<and>
      (\<forall>md \<in> set (tablaDetalles db).
         md_idInventario md \<noteq> i_id pos \<and> md_idLote md \<noteq> Some (l_id lote)) \<and>
      (\<forall>ds \<in> set (tablaDetallesSalida db). ds_idLote ds \<noteq> l_id lote))"

text \<open>The date \<open>create\<close> gives to the seed movement.\<close>

definition fechaSiembra :: "fecha \<Rightarrow> fecha option \<Rightarrow> fecha" where
  "fechaSiembra ahora inicioPeriodo = (case inicioPeriodo of Some a \<Rightarrow> a | None \<Rightarrow> ahora)"

section \<open>Example ledgers\<close>

text \<open>
  Lot 1 of inventory 1 with a stored initial quantity of 10 at cost 5, entered on day 1;
  an ENTRADA of 5 units on day 10 and an exit of 8 units on day 12 allocated to the lot.
\<close>

definition dia :: "int \<Rightarrow> fecha" where
  "dia n = n * 86400000"

definition loteA :: InventarioLote where
  "loteA = \<lparr>l_id = 1, l_idInventario = 1, l_cantidadInicial = 10, l_costoUnitario = 5,
            l_fechaIngreso = dia 1\<rparr>"

definition bdSobregirada :: BaseDatos where
  "bdSobregirada =
     \<lparr>tablaInventarios = [\<lparr>i_id = 1, i_producto = Some 1, i_almacen = Some 1\<rparr>],
      tablaLotes = [loteA],
      tablaMovimientos =
        [\<lparr>m_id = 1, m_tipo = ENTRADA, m_fecha = dia 10, m_numeroDocumento = ''F001-1'',
          m_estado = PROCESADO, m_tipoOperacion = Some ''COMPRA''\<rparr>,
         \<lparr>m_id = 2, m_tipo = SALIDA, m_fecha = dia 12, m_numeroDocumento = ''F001-2'',
          m_estado = PROCESADO, m_tipoOperacion = Some ''VENTA''\<rparr>],
      tablaDetalles =
        [\<lparr>md_id = 1, md_idMovimiento = 1, md_idInventario = 1, md_idLote = Some 1,
          md_cantidad = 5\<rparr>,
         \<lparr>md_id = 2, md_idMovimiento = 2, md_idInventario = 1, md_idLote = None,
          md_cantidad = 8\<rparr>],
      tablaDetallesSalida =
        [\<lparr>ds_idMovimientoDetalle = 2, ds_idLote = 1, ds_costoUnitarioDeLote = 5,
          ds_cantidad = 8\<rparr>]\<rparr>"

definition estadoSobregirado :: Estado where
  "estadoSobregirado = \<lparr>bd = bdSobregirada, cache = cacheVacio\<rparr>"

text \<open>
  The position of the specification's scenarios: lot 1 entered on day 1 with 10 units at
  cost 5, lot 2 on day 10 with 10 units at cost 8, both through purchases, so that their
  stored initial quantity is zero and the quantities are ENTRADA line items.
\<close>

definition bdDosLotes :: BaseDatos where
  "bdDosLotes =
     \<lparr>tablaInventarios = [\<lparr>i_id = 1, i_producto = Some 1, i_almacen = Some 1\<rparr>],
      tablaLotes =
        [\<lparr>l_id = 1, l_idInventario = 1, l_cantidadInicial = 0, l_costoUnitario = 5,
          l_fechaIngreso = dia 1\<rparr>,
         \<lparr>l_id = 2, l_idInventario = 1, l_cantidadInicial = 0, l_costoUnitario = 8,
          l_fechaIngreso = dia 10\<rparr>],
      tablaMovimientos =
        [\<lparr>m_id = 1, m_tipo = ENTRADA, m_fecha = dia 1, m_numeroDocumento = ''F001-1'',
          m_estado = PROCESADO, m_tipoOperacion = Some ''COMPRA''\<rparr>,
         \<lparr>m_id = 2, m_tipo = ENTRADA, m_fecha = dia 10, m_numeroDocumento = ''F001-2'',
          m_estado = PROCESADO, m_tipoOperacion = Some ''COMPRA''\<rparr>],
      tablaDetalles =
        [\<lparr>md_id = 1, md_idMovimiento = 1, md_idInventario = 1, md_idLote = Some 1,
          md_cantidad = 10\<rparr>,
         \<lparr>md_id = 2, md_idMovimiento = 2, md_idInventario = 1, md_idLote = Some 2,
          md_cantidad = 10\<rparr>],
      tablaDetallesSalida = []\<rparr>"

definition estadoDosLotes :: Estado where
  "estadoDosLotes = \<lparr>bd = bdDosLotes, cache = cacheVacio\<rparr>"

text \<open>
  Two lots of one position with the same ingress date, lot 2 stored before lot 1 in the
  table of lots, each with an ENTRADA of 10 units.
\<close>

definition bdEmpate :: BaseDatos where
  "bdEmpate =
     \<lparr>tablaInventarios = [\<lparr>i_id = 1, i_producto = Some 1, i_almacen = Some 1\<rparr>],
      tablaLotes =
        [\<lparr>l_id = 2, l_idInventario = 1, l_cantidadInicial = 0, l_costoUnitario = 8,
          l_fechaIngreso = dia 1\<rparr>,
         \<lparr>l_id = 1, l_idInventario = 1, l_cantidadInicial = 0, l_costoUnitario = 5,
          l_fechaIngreso = dia 1\<rparr>],
      tablaMovimientos =
        [\<lparr>m_id = 1, m_tipo = ENTRADA, m_fecha = dia 1, m_numeroDocumento = ''F001-1'',
          m_estado = PROCESADO, m_tipoOperacion = Some ''COMPRA''\<rparr>,
         \<lparr>m_id = 2, m_tipo = ENTRADA, m_fecha = dia 1, m_numeroDocumento = ''F001-2'',
          m_estado = PROCESADO, m_tipoOperacion = Some ''COMPRA''\<rparr>],
      tablaDetalles =
        [\<lparr>md_id = 1, md_idMovimiento = 1, md_idInventario = 1, md_idLote = Some 1,
          md_cantidad = 10\<rparr>,
         \<lparr>md_id = 2, md_idMovimiento = 2, md_idInventario = 1, md_idLote = Some 2,
          md_cantidad = 10\<rparr>],
      tablaDetallesSalida = []\<rparr>"

definition estadoEmpate :: Estado where
  "estadoEmpate = \<lparr>bd = bdEmpate, cache = cacheVacio\<rparr>"



text \<open>
  The position of the two lots after a sale of 15 units on day 15, allocated to lot 1 (10
  units) and lot 2 (5 units).
\<close>

definition bdConVenta :: BaseDatos where
  "bdConVenta =
     bdDosLotes
       \<lparr>tablaMovimientos := tablaMovimientos bdDosLotes @
          [\<lparr>m_id = 3, m_tipo = SALIDA, m_fecha = dia 15, m_numeroDocumento = ''B001-1'',
            m_estado = PROCESADO, m_tipoOperacion = Some ''VENTA''\<rparr>],
        tablaDetalles := tablaDetalles bdDosLotes @
          [\<lparr>md_id = 3, md_idMovimiento = 3, md_idInventario = 1, md_idLote = None,
            md_cantidad = 15\<rparr>],
        tablaDetallesSalida :=
          [\<lparr>ds_idMovimientoDetalle = 3, ds_idLote = 1, ds_costoUnitarioDeLote = 5,
            ds_cantidad = 10\<rparr>,
           \<lparr>ds_idMovimientoDetalle = 3, ds_idLote = 2, ds_costoUnitarioDeLote = 8,
            ds_cantidad = 5\<rparr>]\<rparr>"

definition estadoConVenta :: Estado where
  "estadoConVenta = \<lparr>bd = bdConVenta, cache = cacheVacio\<rparr>"





section \<open>Properties of the stock of a lot\<close>

lemmas consultas_defs = movimientoDe_def hastaFecha_def procesadoDeTipo_def totalDetallesLote_def
  salidaProcesada_def totalSalidasLote_def invInit_def tieneMovimientos_def
  cantidadSinMovimientos_def computarStockLote_def

lemma computarStockLote_no_negativo: "0 \<le> cantidadActual (computarStockLote db lote fh)"
  by (simp add: computarStockLote_def Let_def)

lemma cacheLotesNoNegativo_set:
  "cacheLotesNoNegativo c \<Longrightarrow> 0 \<le> cantidadActual r \<Longrightarrow>
   cacheLotesNoNegativo (setLoteStock c i fh r)"
  by (simp add: cacheLotesNoNegativo_def setLoteStock_def)

lemma cacheLotesNoNegativo_vacio: "cacheLotesNoNegativo cacheVacio"
  by (simp add: cacheLotesNoNegativo_def cacheVacio_def)

text \<open>
  C10. The quantity \<open>calcularStockLote\<close> returns is never negative, whatever the ledger
  holds: a computed quantity is floored at zero, and a quantity served from the cache was
  put there by an earlier call, so the cache only ever holds quantities that are not
  negative, which the call preserves.
\<close>

theorem calcularStockLote_no_negativo:
  assumes "cacheLotesNoNegativo (cache st)"
    and "calcularStockLote st idL fechaHasta = (Some r, st')"
  shows "0 \<le> cantidadActual r \<and> cacheLotesNoNegativo (cache st')"
proof (cases "getLoteStock (cache st) idL fechaHasta \<noteq> None \<and> fechaHasta = None")
  case True
  with assms(2) have "loteCache (cache st) (idL, fechaHasta) = Some r" and "st' = st"
    by (auto simp: calcularStockLote_def getLoteStock_def)
  with assms(1) show ?thesis
    by (auto simp: cacheLotesNoNegativo_def)
next
  case False
  with assms(2) obtain lote where
    r: "r = computarStockLote (bd st) lote fechaHasta" and
    st': "st' = st\<lparr>cache := setLoteStock (cache st) idL fechaHasta r\<rparr>"
    by (auto simp: calcularStockLote_def Let_def split: option.splits)
  have "0 \<le> cantidadActual r"
    unfolding r by (rule computarStockLote_no_negativo)
  with assms(1) st' show ?thesis
    by (simp add: cacheLotesNoNegativo_set)
qed

lemma stockLote_sobregirado:
  "calcularStockLote estadoSobregirado 1 None =
     (Some \<lparr>idLote = 1, cantidadActual = 0, cantidadInicial = 10, costoUnitario = 5,
            fechaIngreso = dia 1\<rparr>,
      estadoSobregirado\<lparr>cache := setLoteStock cacheVacio 1 None
        \<lparr>idLote = 1, cantidadActual = 0, cantidadInicial = 10, costoUnitario = 5,
            fechaIngreso = dia 1\<rparr>\<rparr>)"
  by (simp add: calcularStockLote_def Let_def estadoSobregirado_def getLoteStock_def cacheVacio_def
      bdSobregirada_def loteA_def consultas_defs)

text \<open>
  The ledger of the example books 5 units into lot 1 and 8 units out of it: the replayed
  sum is \<open>-3\<close>, and the stock reported is 0.
\<close>

theorem calcularStockLote_no_negativo_witness:
  "cacheLotesNoNegativo (cache estadoSobregirado) \<and>
   totalDetallesLote bdSobregirada 1 ENTRADA None - totalSalidasLote bdSobregirada 1 None
     + totalDetallesLote bdSobregirada 1 AJUSTE None = - 3 \<and>
   map_option cantidadActual (fst (calcularStockLote estadoSobregirado 1 None)) = Some 0 \<and>
   cacheLotesNoNegativo (cache (snd (calcularStockLote estadoSobregirado 1 None)))"
proof -
  have h: "cacheLotesNoNegativo (cache estadoSobregirado)"
    by (simp add: estadoSobregirado_def cacheLotesNoNegativo_vacio)
  have t: "totalDetallesLote bdSobregirada 1 ENTRADA None - totalSalidasLote bdSobregirada 1 None
     + totalDetallesLote bdSobregirada 1 AJUSTE None = - 3"
    by (simp add: consultas_defs bdSobregirada_def)
  from calcularStockLote_no_negativo [OF h stockLote_sobregirado] h t show ?thesis
    unfolding stockLote_sobregirado by simp
qed

section \<open>The lot without movements\<close>

lemma find_id: "find (\<lambda>l. l_id l = idL) xs = Some lote \<Longrightarrow> l_id lote = idL"
  by (auto simp: find_Some_iff)

lemma calcularStockLote_con_fecha:
  "calcularStockLote st idL (Some h) =
     (case find (\<lambda>l. l_id l = idL) (tablaLotes (bd st)) of
        None \<Rightarrow> (None, st)
      | Some lote \<Rightarrow>
          (Some (computarStockLote (bd st) lote (Some h)),
           st\<lparr>cache := setLoteStock (cache st) idL (Some h) (computarStockLote (bd st) lote (Some h))\<rparr>))"
  by (simp add: calcularStockLote_def Let_def split: option.splits)

lemma sin_referencias_totales:
  assumes "referenciasLote db idL fh = 0"
  shows "totalDetallesLote db idL tipo fh = 0" and "totalSalidasLote db idL fh = 0"
proof -
  from assms have a: "\<forall>md \<in> set (tablaDetalles db). \<not> (md_idLote md = Some idL \<and>
                       (case movimientoDe db md of
                          None \<Rightarrow> False
                        | Some m \<Rightarrow> m_estado m = PROCESADO \<and> hastaFecha fh (m_fecha m)))"
    and b: "\<forall>ds \<in> set (tablaDetallesSalida db). \<not> (ds_idLote ds = idL \<and>
                       (case find (\<lambda>md. md_id md = ds_idMovimientoDetalle ds) (tablaDetalles db) of
                          None \<Rightarrow> False
                        | Some md \<Rightarrow>
                            (case movimientoDe db md of
                               None \<Rightarrow> False
                             | Some m \<Rightarrow>
                                 m_estado m = PROCESADO \<and> hastaFecha fh (m_fecha m))))"
    by (simp_all add: referenciasLote_def filter_empty_conv)
  have "filter (\<lambda>md. md_idLote md = Some idL \<and> procesadoDeTipo db tipo fh md) (tablaDetalles db) = []"
    unfolding filter_empty_conv using a
    by (auto simp: procesadoDeTipo_def split: option.splits)
  then show "totalDetallesLote db idL tipo fh = 0"
    by (simp add: totalDetallesLote_def)
  have "filter (\<lambda>ds. ds_idLote ds = idL \<and> salidaProcesada db fh ds \<noteq> None) (tablaDetallesSalida db) = []"
    unfolding filter_empty_conv using b
    by (auto simp: salidaProcesada_def procesadoDeTipo_def split: option.splits if_splits)
  then show "totalSalidasLote db idL fh = 0"
    by (simp add: totalSalidasLote_def)
qed

text \<open>
  C5 (amended). With a cutoff date, a lot that no PROCESADO line item or exit allocation
  dated up to the cutoff references is reported with its stored initial quantity, floored
  at zero, when the calendar day of its \<open>INV-INIT\<close> movement (of its ingress date when it
  has none) is on or before the calendar day of the cutoff, and with zero otherwise;
  movements dated after the cutoff do not prevent this. As soon as one of the three totals
  up to the cutoff is positive, the stored initial quantity is not used and the replayed
  total, floored at zero, is reported.
\<close>

theorem calcularStockLote_sin_movimientos:
  assumes "find (\<lambda>l. l_id l = idL) (tablaLotes (bd st)) = Some lote"
  shows "(referenciasLote (bd st) idL (Some h) = 0 \<longrightarrow>
            map_option cantidadActual (fst (calcularStockLote st idL (Some h))) =
              Some (if ymd (fechaDeEntrada (bd st) lote) \<le> ymd h
                    then max 0 (l_cantidadInicial lote) else 0)) \<and>
         (tieneMovimientos (bd st) idL (Some h) \<longrightarrow>
            map_option cantidadActual (fst (calcularStockLote st idL (Some h))) =
              Some (max 0 (totalDetallesLote (bd st) idL ENTRADA (Some h)
                           - totalSalidasLote (bd st) idL (Some h)
                           + totalDetallesLote (bd st) idL AJUSTE (Some h))))"
proof -
  have idl: "l_id lote = idL" using assms by (rule find_id)
  have r: "fst (calcularStockLote st idL (Some h)) = Some (computarStockLote (bd st) lote (Some h))"
    using assms by (simp add: calcularStockLote_con_fecha)
  show ?thesis
  proof (intro conjI impI)
    assume z: "referenciasLote (bd st) idL (Some h) = 0"
    then have "\<not> tieneMovimientos (bd st) idL (Some h)"
      by (simp add: tieneMovimientos_def sin_referencias_totales)
    then show "map_option cantidadActual (fst (calcularStockLote st idL (Some h))) =
              Some (if ymd (fechaDeEntrada (bd st) lote) \<le> ymd h
                    then max 0 (l_cantidadInicial lote) else 0)"
      unfolding r
      by (simp add: computarStockLote_def Let_def idl cantidadSinMovimientos_def fechaDeEntrada_def
          split: option.splits)
  next
    assume "tieneMovimientos (bd st) idL (Some h)"
    then show "map_option cantidadActual (fst (calcularStockLote st idL (Some h))) =
              Some (max 0 (totalDetallesLote (bd st) idL ENTRADA (Some h)
                           - totalSalidasLote (bd st) idL (Some h)
                           + totalDetallesLote (bd st) idL AJUSTE (Some h)))"
      unfolding r by (simp add: computarStockLote_def Let_def idl)
  qed
qed

lemma ej_lote: "find (\<lambda>l. l_id l = 1) (tablaLotes (bd estadoSobregirado)) = Some loteA"
  by (simp add: estadoSobregirado_def bdSobregirada_def loteA_def)

text \<open>
  In the example no movement of lot 1 is dated up to day 5, and its ENTRADA of 5 units is
  dated up to day 11.
\<close>

theorem calcularStockLote_sin_movimientos_witness:
  "find (\<lambda>l. l_id l = 1) (tablaLotes (bd estadoSobregirado)) = Some loteA \<and>
   referenciasLote (bd estadoSobregirado) 1 (Some (dia 5)) = 0 \<and>
   map_option cantidadActual (fst (calcularStockLote estadoSobregirado 1 (Some (dia 5)))) = Some 10 \<and>
   tieneMovimientos (bd estadoSobregirado) 1 (Some (dia 11)) \<and>
   map_option cantidadActual (fst (calcularStockLote estadoSobregirado 1 (Some (dia 11)))) = Some 5"
proof -
  have z: "referenciasLote (bd estadoSobregirado) 1 (Some (dia 5)) = 0"
    by (simp add: referenciasLote_def estadoSobregirado_def bdSobregirada_def consultas_defs dia_def)
  have t: "tieneMovimientos (bd estadoSobregirado) 1 (Some (dia 11))"
    by (simp add: estadoSobregirado_def bdSobregirada_def consultas_defs dia_def)
  have v: "ymd (fechaDeEntrada (bd estadoSobregirado) loteA) \<le> ymd (dia 5)"
    "l_cantidadInicial loteA = 10"
    by (simp_all add: fechaDeEntrada_def estadoSobregirado_def bdSobregirada_def consultas_defs dia_def
          loteA_def ymd_def)
  have s: "totalDetallesLote (bd estadoSobregirado) 1 ENTRADA (Some (dia 11))
                           - totalSalidasLote (bd estadoSobregirado) 1 (Some (dia 11))
                           + totalDetallesLote (bd estadoSobregirado) 1 AJUSTE (Some (dia 11)) = 5"
    by (simp add: estadoSobregirado_def bdSobregirada_def consultas_defs dia_def)
  from calcularStockLote_sin_movimientos [OF ej_lote, of "dia 5"]
       calcularStockLote_sin_movimientos [OF ej_lote, of "dia 11"] z t v s ej_lote
  show ?thesis by simp
qed

text \<open>
  The claim as stated, that the stored initial quantity is used only when no movement
  references the lot at all, fails: two rows of the example ledger reference lot 1, and at
  the cutoff of day 5 the lot is still reported with its stored initial quantity.
\<close>

theorem calcularStockLote_respaldo_counterexample:
  "referenciasLote bdSobregirada 1 None = 2 \<and>
   \<not> tieneMovimientos bdSobregirada 1 (Some (dia 5)) \<and>
   map_option cantidadActual (fst (calcularStockLote estadoSobregirado 1 (Some (dia 5)))) =
     Some (l_cantidadInicial loteA)"
  by (simp add: referenciasLote_def estadoSobregirado_def bdSobregirada_def consultas_defs dia_def
      calcularStockLote_con_fecha loteA_def ymd_def)

section \<open>FIFO consumption\<close>

lemma bd_calcularStockLote: "bd (snd (calcularStockLote st i fh)) = bd st"
  by (simp add: calcularStockLote_def Let_def split: option.splits)

lemma bd_sumarLotes: "bd (snd (sumarLotes st fh ls acc)) = bd st"
proof (induction ls arbitrary: st acc)
  case Nil
  then show ?case by simp
next
  case (Cons l ls)
  obtain a s v where acc: "acc = (a, s, v)" by (cases acc) auto
  obtain r st1 where c: "calcularStockLote st (l_id l) fh = (r, st1)" by (metis surj_pair)
  have "bd st1 = bd st" using bd_calcularStockLote [of st "l_id l" fh] c by simp
  then show ?case using Cons.IH c acc
    by (simp split: option.splits)
qed

lemma bd_calcularStockInventario: "bd (snd (calcularStockInventario st i fh)) = bd st"
proof -
  obtain r st1 where s: "sumarLotes st fh (lotesDeInventario (bd st) i) ([], 0, 0) = (r, st1)"
    by (metis surj_pair)
  have "bd st1 = bd st" using bd_sumarLotes [of st fh "lotesDeInventario (bd st) i" "([], 0, 0)"] s
    by simp
  then show ?thesis using s
    by (simp add: calcularStockInventario_def Let_def split: option.splits prod.splits)
qed











section \<open>Lots of equal ingress date\<close>

text \<open>
  C2. The claim asks that of two available lots with the same ingress date the one with the
  lower id be drawn first. \<open>obtenerLotesDisponiblesFIFO\<close> sorts by ingress date alone, and
  the query behind it orders by ingress date alone: with lot 2 stored before lot 1, both
  entered on day 1, the list is lot 2, lot 1, and a consumption of 3 units is taken from
  lot 2. The Kardex replay, whose comparator falls back on the lot id, puts the same two
  lots in the order lot 1, lot 2.
\<close>

theorem obtenerLotesDisponiblesFIFO_empate:
  "map d_idLote (fst (obtenerLotesDisponiblesFIFO estadoEmpate 1 (Some (dia 15)))) = [2, 1] \<and>
   map_sum id (map k_idLote) (fst (calcularConsumoFIFO estadoEmpate 1 3 (Some (dia 15)))) = Inr [2] \<and>
   map d_idLote
     (lotesTemporalesOrdenados
        (cargarLotesTemporales [] (fst (obtenerLotesDisponiblesFIFO estadoEmpate 1 (Some (dia 15)))))) = [1, 2]"
  by code_simp

section \<open>Stock of a position\<close>

lemma vista_estable:
  "calcularStockLote st i fh = (r, st1) \<Longrightarrow>
   fst (calcularStockLote st1 j fh) = fst (calcularStockLote st j fh)"
  by (auto simp: calcularStockLote_def getLoteStock_def setLoteStock_def Let_def
      split: option.splits if_splits)

lemma sumarLotes_forma:
  "fst (sumarLotes st fh ls (a, s, v)) =
     (a @ filter (\<lambda>s. cantidadActual s > 0)
            (List.map_filter (\<lambda>l. fst (calcularStockLote st (l_id l) fh)) ls),
      s + cantidadLotes (filter (\<lambda>s. cantidadActual s > 0)
            (List.map_filter (\<lambda>l. fst (calcularStockLote st (l_id l) fh)) ls)),
      v + valorLotes (filter (\<lambda>s. cantidadActual s > 0)
            (List.map_filter (\<lambda>l. fst (calcularStockLote st (l_id l) fh)) ls)))"
proof (induction ls arbitrary: st a s v)
  case Nil
  then show ?case by (simp add: cantidadLotes_def valorLotes_def)
next
  case (Cons l ls)
  obtain r st1 where c: "calcularStockLote st (l_id l) fh = (r, st1)" by (metis surj_pair)
  have v: "(\<lambda>l. fst (calcularStockLote st1 (l_id l) fh)) = (\<lambda>l. fst (calcularStockLote st (l_id l) fh))"
    using vista_estable [OF c] by simp
  show ?case
    using c Cons.IH [of st1] unfolding v
    by (cases r) (simp_all add: cantidadLotes_def valorLotes_def)
qed

lemma suma_lotes_positivos: "\<forall>l \<in> set ls. 0 < cantidadActual l \<Longrightarrow> 0 \<le> cantidadLotes ls"
  unfolding cantidadLotes_def by (induction ls) auto

lemma calcularStockInventario_calculo:
  assumes "calcularStockInventario st idInv fechaHasta = (Some r, st')"
    and "getInventarioStock (cache st) idInv fechaHasta = None \<or> fechaHasta \<noteq> None"
  shows "lotes r = lotesConStockDe st idInv fechaHasta"
    and "stockActual r =
           max 0 (cantidadLotes (lotes r) - totalSalidasSinLote (bd st) idInv fechaHasta)"
    and "costoPromedioActual r =
           (if stockActual r > 0 then valorLotes (lotes r) / stockActual r else 0)"
    and "0 \<le> cantidadLotes (lotes r)"
proof -
  let ?P = "lotesConStockDe st idInv fechaHasta"
  obtain acc st1 where s: "sumarLotes st fechaHasta (lotesDeInventario (bd st) idInv) ([], 0, 0) = (acc, st1)"
    by (metis surj_pair)
  have acc: "acc = (?P, cantidadLotes ?P, valorLotes ?P)"
    using sumarLotes_forma [of st fechaHasta "lotesDeInventario (bd st) idInv" "[]" 0 0] s
    by (simp add: lotesConStockDe_def)
  have b: "bd st1 = bd st"
    using bd_sumarLotes [of st fechaHasta "lotesDeInventario (bd st) idInv" "([], 0, 0)"] s by simp
  show l: "lotes r = ?P"
    using assms s acc b
    by (auto simp: calcularStockInventario_def Let_def split: option.splits if_splits)
  show "stockActual r = max 0 (cantidadLotes (lotes r) - totalSalidasSinLote (bd st) idInv fechaHasta)"
    using assms s acc b
    by (auto simp: calcularStockInventario_def Let_def split: option.splits if_splits)
  show "costoPromedioActual r = (if stockActual r > 0 then valorLotes (lotes r) / stockActual r else 0)"
    using assms s acc b
    by (auto simp: calcularStockInventario_def Let_def split: option.splits if_splits)
  have "0 \<le> cantidadLotes ?P"
    by (rule suma_lotes_positivos) (simp add: lotesConStockDe_def)
  then show "0 \<le> cantidadLotes (lotes r)" using l by simp
qed




lemma par_de: "fst p = Some r \<Longrightarrow> p = (Some r, snd p)"
  by (cases p) simp



section \<open>Answers from the cache\<close>

lemma inventario_existe:
  "calcularStockInventario st idInv fh = (Some r, st1) \<Longrightarrow>
   find (\<lambda>i. i_id i = idInv) (tablaInventarios (bd st)) \<noteq> None"
  by (auto simp: calcularStockInventario_def Let_def split: option.splits if_splits)

lemma cache_tras_calculo:
  assumes "calcularStockInventario st idInv None = (Some r, st1)"
  shows "\<exists>e. getInventarioStock (cache st1) idInv None = Some e \<and>
             c_stockActual e = stockActual r \<and> c_costoPromedioActual e = costoPromedioActual r"
proof (cases "getInventarioStock (cache st) idInv None")
  case None
  obtain acc stA where s: "sumarLotes st None (lotesDeInventario (bd st) idInv) ([], 0, 0) = (acc, stA)"
    by (metis surj_pair)
  show ?thesis using assms None s
    by (auto simp: calcularStockInventario_def Let_def getInventarioStock_def setInventarioStock_def
        split: option.splits prod.splits)
next
  case (Some c)
  then show ?thesis using assms
    by (auto simp: calcularStockInventario_def Let_def split: option.splits)
qed

lemma calculo_existe:
  assumes "find (\<lambda>i. i_id i = idInv) (tablaInventarios (bd st)) \<noteq> None"
  shows "\<exists>r. fst (calcularStockInventario st idInv fh) = Some r"
proof -
  obtain a s v stA where s: "sumarLotes st fh (lotesDeInventario (bd st) idInv) ([], 0, 0) = ((a, s, v), stA)"
    by (metis surj_pair)
  show ?thesis using assms s
    by (auto simp: calcularStockInventario_def Let_def)
qed

lemma servido_de_cache:
  assumes "getInventarioStock (cache st) idInv None = Some e"
    and "find (\<lambda>i. i_id i = idInv) (tablaInventarios (bd st)) \<noteq> None"
  shows "calcularStockInventario st idInv None =
           (Some \<lparr>idInventario = idInv, stockActual = c_stockActual e,
                  costoPromedioActual = c_costoPromedioActual e, lotes = []\<rparr>, st)"
  using assms by (auto simp: calcularStockInventario_def Let_def split: option.splits)

text \<open>
  C4. Once a call of \<open>calcularStockInventario\<close> without cutoff date has returned a result
  for a position, the cache holds its quantity and average cost, and the next call without
  cutoff date returns them with an empty list of lots and changes nothing. In that state
  \<open>obtenerLotesDisponiblesFIFO\<close> without cutoff date lists no lot, so
  \<open>calcularConsumoFIFO\<close> without cutoff date throws for every positive quantity, with the
  whole quantity missing. After \<open>invalidateInventario\<close> the next call lists the lots with
  stock again.
\<close>

theorem calcularStockInventario_desde_cache:
  assumes "calcularStockInventario st idInv None = (Some r1, st1)"
  shows "calcularStockInventario st1 idInv None =
           (Some \<lparr>idInventario = idInv, stockActual = stockActual r1,
                  costoPromedioActual = costoPromedioActual r1, lotes = []\<rparr>, st1) \<and>
         fst (obtenerLotesDisponiblesFIFO st1 idInv None) = [] \<and>
         (0 < q \<longrightarrow> fst (calcularConsumoFIFO st1 idInv q None) = Inl (StockInsuficiente q)) \<and>
         map_option lotes
           (fst (calcularStockInventario (st1\<lparr>cache := invalidateInventario (cache st1) idInv\<rparr>)
                   idInv None)) =
           Some (lotesConStockDe (st1\<lparr>cache := invalidateInventario (cache st1) idInv\<rparr>) idInv None)"
proof -
  let ?st2 = "st1\<lparr>cache := invalidateInventario (cache st1) idInv\<rparr>"
  have b: "bd st1 = bd st"
    using bd_calcularStockInventario [of st idInv None] assms by simp
  have ex: "find (\<lambda>i. i_id i = idInv) (tablaInventarios (bd st1)) \<noteq> None"
    using inventario_existe [OF assms] b by simp
  obtain e where e: "getInventarioStock (cache st1) idInv None = Some e"
    "c_stockActual e = stockActual r1" "c_costoPromedioActual e = costoPromedioActual r1"
    using cache_tras_calculo [OF assms] by blast
  have c2: "calcularStockInventario st1 idInv None =
           (Some \<lparr>idInventario = idInv, stockActual = stockActual r1,
                  costoPromedioActual = costoPromedioActual r1, lotes = []\<rparr>, st1)"
    using servido_de_cache [OF e(1) ex] e(2,3) by simp
  have o: "fst (obtenerLotesDisponiblesFIFO st1 idInv None) = []"
    by (simp add: obtenerLotesDisponiblesFIFO_def c2)
  have k: "0 < q \<longrightarrow> fst (calcularConsumoFIFO st1 idInv q None) = Inl (StockInsuficiente q)"
    by (simp add: calcularConsumoFIFO_def obtenerLotesDisponiblesFIFO_def c2)
  have n: "getInventarioStock (cache ?st2) idInv None = None"
    by (simp add: getInventarioStock_def invalidateInventario_def)
  have "find (\<lambda>i. i_id i = idInv) (tablaInventarios (bd ?st2)) \<noteq> None"
    using ex by simp
  then obtain r3 where r3: "fst (calcularStockInventario ?st2 idInv None) = Some r3"
    using calculo_existe by blast
  have "lotes r3 = lotesConStockDe ?st2 idInv None"
    using calcularStockInventario_calculo(1) [OF par_de [OF r3]] n by simp
  then show ?thesis using c2 o k r3 by simp
qed

lemma primera_dosLotes:
  "fst (calcularStockInventario estadoDosLotes 1 None) =
     Some \<lparr>idInventario = 1, stockActual = 20, costoPromedioActual = 13 / 2,
           lotes = [\<lparr>idLote = 1, cantidadActual = 10, cantidadInicial = 0, costoUnitario = 5,
                     fechaIngreso = dia 1\<rparr>,
                    \<lparr>idLote = 2, cantidadActual = 10, cantidadInicial = 0, costoUnitario = 8,
                     fechaIngreso = dia 10\<rparr>]\<rparr>"
  by code_simp

text \<open>The position of the two lots, which holds 20 units, asked for 15 after a first call.\<close>

theorem calcularStockInventario_desde_cache_witness:
  "fst (calcularStockInventario (snd (calcularStockInventario estadoDosLotes 1 None)) 1 None) =
     Some \<lparr>idInventario = 1, stockActual = 20, costoPromedioActual = 13 / 2, lotes = []\<rparr> \<and>
   fst (obtenerLotesDisponiblesFIFO (snd (calcularStockInventario estadoDosLotes 1 None)) 1 None) = [] \<and>
   (0::rat) < 15 \<and>
   fst (calcularConsumoFIFO (snd (calcularStockInventario estadoDosLotes 1 None)) 1 15 None) =
     Inl (StockInsuficiente 15)"
  using calcularStockInventario_desde_cache [OF par_de [OF primera_dosLotes], of 15]
  by simp

section \<open>Exits of a FIFO replay\<close>



lemma saldoDe_filaSalida: "saldoDe (filaSalida mov q cu ct s ds) = s"
  by (cases s) (simp add: saldoDe_def filaSalida_def)






section \<open>The running balance of the Kardex\<close>

lemma saldoContinuo_append:
  "saldoContinuo s (xs @ ys) =
     (saldoContinuo s xs \<and> saldoContinuo (if xs = [] then s else saldoDe (last xs)) ys)"
  by (induction xs arbitrary: s) auto

lemma filaDesde_salida:
  assumes "\<not> esMovimientoEntrada (tipomovimiento mov) (c_tipoOperacion mov)"
  shows "filaDesde s (filaSalida mov q cu ct (saldoTrasSalida s q ct) ds)"
  using assms
  by (simp add: filaDesde_def filaSalida_def saldoTrasSalida_def Let_def)

lemma filaDesde_entrada:
  assumes "esMovimientoEntrada (tipomovimiento mov) (c_tipoOperacion mov)"
  shows "filaDesde s (procesarEntrada db mov s)"
  using assms
  by (simp add: filaDesde_def procesarEntrada_def Let_def)

lemma saldoContinuo_movimientosPorLote:
  assumes "\<not> esMovimientoEntrada (tipomovimiento mov) (c_tipoOperacion mov)"
  shows "saldoContinuo s (movimientosPorLote mov s ds)"
  using assms
  by (induction ds arbitrary: s)
     (simp_all add: Let_def filaDesde_salida saldoDe_filaSalida)

lemma replayMovimientos_continuo:
  "\<exists>filas. replayMovimientos db metodo movs s lt acc = acc @ filas \<and> saldoContinuo s filas"
proof (induction movs arbitrary: s lt acc)
  case Nil
  then show ?case by simp
next
  case (Cons mov movs)
  show ?case
  proof (cases "esMovimientoEntrada (tipomovimiento mov) (c_tipoOperacion mov)")
    case True
    let ?f = "procesarEntrada db mov s"
    let ?lt = "(case fila_md_id_lote mov of
                      None \<Rightarrow> lt
                    | Some i \<Rightarrow>
                        if metodo = FIFO \<and> i \<noteq> 0
                        then actualizarLoteTemporalEntrada lt i (km_cantidad ?f)
                               (km_costoUnitario ?f) (km_fecha ?f)
                        else lt)"
    from Cons.IH [of "saldoDe ?f" ?lt "acc @ [?f]"]
    obtain filas where r: "replayMovimientos db metodo movs (saldoDe ?f) ?lt (acc @ [?f]) =
                             (acc @ [?f]) @ filas"
      and c: "saldoContinuo (saldoDe ?f) filas" by blast
    have "replayMovimientos db metodo (mov # movs) s lt acc = acc @ (?f # filas)"
      using True r by (simp add: Let_def)
    moreover have "saldoContinuo s (?f # filas)"
      using c filaDesde_entrada [OF True] by simp
    ultimately show ?thesis by blast
  next
    case False
    show ?thesis
    proof (cases "metodo = PROMEDIO")
      case True
      let ?q = "fila_md_cantidad mov"
      let ?ct = "?q * s_costoUnitario s"
      let ?f = "filaSalida mov ?q (s_costoUnitario s) ?ct (saldoTrasSalida s ?q ?ct) None"
      from Cons.IH [of "saldoDe ?f" lt "acc @ [?f]"]
      obtain filas where r: "replayMovimientos db metodo movs (saldoDe ?f) lt (acc @ [?f]) =
                             (acc @ [?f]) @ filas"
        and c: "saldoContinuo (saldoDe ?f) filas" by blast
      have "replayMovimientos db metodo (mov # movs) s lt acc = acc @ (?f # filas)"
        using False True r by (simp add: procesarSalida_def Let_def)
      moreover have "saldoContinuo s (?f # filas)"
        using c filaDesde_salida [OF False] by simp
      ultimately show ?thesis by blast
    next
      case fifo: False
      obtain cu ds lt1 where k: "calcularCostoFIFO lt (fila_md_cantidad mov) = ((cu, ds), lt1)"
        by (metis surj_pair)
      let ?res = "movimientosPorLote mov s ds"
      let ?s1 = "if ?res = [] then s else saldoDe (last ?res)"
      from Cons.IH [of ?s1 lt1 "acc @ ?res"]
      obtain filas where r: "replayMovimientos db metodo movs ?s1 lt1 (acc @ ?res) =
                             (acc @ ?res) @ filas"
        and c: "saldoContinuo ?s1 filas" by blast
      have "replayMovimientos db metodo (mov # movs) s lt acc = acc @ (?res @ filas)"
        using False fifo k r by (simp add: procesarSalida_def Let_def)
      moreover have "saldoContinuo s (?res @ filas)"
        using c saldoContinuo_movimientosPorLote [OF False]
        by (simp add: saldoContinuo_append)
      ultimately show ?thesis by blast
    qed
  qed
qed

text \<open>
  C6. In every Kardex that \<open>generarKardex\<close> produces, under PROMEDIO and under FIFO, the
  running balance is continuous: the first row continues the opening balance, and every
  other row continues the balance after the row before it, in quantity and in value (an
  entry adds its quantity and cost, an exit subtracts them and is floored at zero).
\<close>

theorem generarKardex_saldo_continuo:
  assumes "generarKardex st idInv fechaDesde fechaHasta metodo = (Some kr, st')"
  shows "saldoContinuo (saldoInicial kr) (movimientosKardex kr)"
proof -
  obtain saldoIni st1 where s: "calcularSaldoInicial st idInv fechaDesde = (saldoIni, st1)"
    by (metis surj_pair)
  obtain kardex st2 where p: "procesarMovimientos st1
      (obtenerMovimientosInventario (bd st) idInv fechaDesde fechaHasta) saldoIni metodo idInv
      fechaDesde = (kardex, st2)"
    by (metis surj_pair)
  have kr: "saldoInicial kr = saldoIni" "movimientosKardex kr = kardex"
    using assms s p by (auto simp: generarKardex_def Let_def split: option.splits)
  obtain lt st3 where i: "(if metodo = FIFO then inicializarLotesTemporales st1 idInv fechaDesde
      else ([], st1)) = (lt, st3)"
    by (metis surj_pair)
  have "kardex = replayMovimientos (bd st3) metodo
      (obtenerMovimientosInventario (bd st) idInv fechaDesde fechaHasta) saldoIni lt []"
    using p i by (auto simp: procesarMovimientos_def)
  then show ?thesis
    using replayMovimientos_continuo [of "bd st3" metodo _ saldoIni lt "[]"] kr by auto
qed

lemma kardex_fifo_ej: "map cantidadSaldo
    (case fst (generarKardex estadoConVenta 1 (dia 0) (dia 20) FIFO) of
       None \<Rightarrow> [] | Some kr \<Rightarrow> movimientosKardex kr) = [10, 20, 10, 5]"
  by code_simp

lemma kardex_promedio_ej: "map cantidadSaldo
    (case fst (generarKardex estadoConVenta 1 (dia 0) (dia 20) PROMEDIO) of
       None \<Rightarrow> [] | Some kr \<Rightarrow> movimientosKardex kr) = [10, 20, 5]"
  by code_simp

text \<open>
  The position of the two lots with its sale of 15 units: four rows under FIFO (the sale
  gives one row per lot), three under PROMEDIO.
\<close>

theorem generarKardex_saldo_continuo_witness:
  "(\<exists>kr. fst (generarKardex estadoConVenta 1 (dia 0) (dia 20) FIFO) = Some kr \<and>
         map cantidadSaldo (movimientosKardex kr) = [10, 20, 10, 5] \<and>
         saldoContinuo (saldoInicial kr) (movimientosKardex kr)) \<and>
   (\<exists>kr. fst (generarKardex estadoConVenta 1 (dia 0) (dia 20) PROMEDIO) = Some kr \<and>
         map cantidadSaldo (movimientosKardex kr) = [10, 20, 5] \<and>
         saldoContinuo (saldoInicial kr) (movimientosKardex kr))"
proof -
  obtain k1 where k1: "fst (generarKardex estadoConVenta 1 (dia 0) (dia 20) FIFO) = Some k1"
    using kardex_fifo_ej by (cases "fst (generarKardex estadoConVenta 1 (dia 0) (dia 20) FIFO)") auto
  obtain k2 where k2: "fst (generarKardex estadoConVenta 1 (dia 0) (dia 20) PROMEDIO) = Some k2"
    using kardex_promedio_ej
    by (cases "fst (generarKardex estadoConVenta 1 (dia 0) (dia 20) PROMEDIO)") auto
  from generarKardex_saldo_continuo [OF par_de [OF k1]]
       generarKardex_saldo_continuo [OF par_de [OF k2]]
       kardex_fifo_ej kardex_promedio_ej k1 k2
  show ?thesis by simp
qed

section \<open>Lots of a voucher\<close>




















end
